theory Spec2Isabelle
  imports Complex_Main "HOL-Library.Char_ord" "HOL-Library.List_Lexorder" "HOL-Library.Multiset"
begin

section \<open>Data model (src/models)\<close>

text \<open>
  The Mongoose schemas of \<^verbatim>\<open>src/models/Request.js\<close> (Request, Payment, Donation) and
  \<^verbatim>\<open>src/models/User.js\<close>. An ObjectId is a natural number, a Date is a number of
  milliseconds, a JavaScript Number is the real number the double stands for (the sums
  the dashboard and the donation counter compute are rounded as doubles are, see
  \<open>fadd\<close> below), a String field is a string. Field names carry the collection as a prefix,
  since the schemas share names such as \<^verbatim>\<open>status\<close> and \<^verbatim>\<open>type\<close>. Fields that no modelled
  handler reads or writes (images, quantity, matchedRequest, transactionId, password,
  email) are left out.
\<close>

type_synonym oid = nat
type_synonym date = int

record donation =
  don_id :: oid
  don_donor :: oid
  don_type :: string
  don_description :: string
  don_value :: real
  don_status :: string
  don_recipient :: "oid option"
  don_donatedAt :: "date option"
  don_expiresAt :: date
  don_createdAt :: date
  don_updatedAt :: date

record request =
  req_id :: oid
  req_student :: oid
  req_type :: string
  req_description :: string
  req_urgencyLevel :: string
  req_amount :: real
  req_status :: string
  req_fulfilledBy :: "oid option"
  req_fulfilledAt :: "date option"
  req_priority :: real
  req_createdAt :: date
  req_updatedAt :: date

record share =
  share_student :: oid
  share_amount :: real

record payment =
  pay_id :: oid
  pay_donor :: oid
  pay_recipient :: "oid option"
  pay_amount :: real
  pay_type :: string
  pay_status :: string
  pay_processedBy :: "oid option"
  pay_processedAt :: "date option"
  pay_distributionMethod :: string
  pay_splitAmong :: "share list"
  pay_createdAt :: date
  pay_updatedAt :: date

record user =
  usr_id :: oid
  usr_username :: string
  usr_role :: string
  usr_uniqueId :: "string option"
  usr_totalDonations :: real
  usr_isRegularDonor :: bool
  usr_isActive :: bool
  usr_lastLogin :: "date option"
  usr_updatedAt :: date

text \<open>The database: one list of documents per collection, in insertion order.\<close>

record db =
  donations :: "donation list"
  requests :: "request list"
  payments :: "payment list"
  users :: "user list"

text \<open>A handler answers with a redirect: the HTTP status and the location. Every
  redirect of the modelled handlers goes out with status 302: \<^verbatim>\<open>res.redirect(url)\<close> sets
  the status itself, so the code given to \<^verbatim>\<open>res.status\<close> in \<^verbatim>\<open>res.status(400).redirect(url)\<close>
  is overwritten, and the location alone tells the answers apart.\<close>

datatype response = Redirect nat string

subsection \<open>Sums of JavaScript numbers\<close>








subsection \<open>Schema enumerations and validation\<close>

definition donation_type_enum :: "string list" where
  "donation_type_enum =
     [''laptop'', ''books'', ''fees'', ''bag'', ''shoes'', ''notes'', ''money'', ''other'']"

definition request_type_enum :: "string list" where
  "request_type_enum = [''laptop'', ''books'', ''fees'', ''bag'', ''shoes'', ''notes'', ''other'']"

definition urgency_enum :: "string list" where
  "urgency_enum = [''low'', ''medium'', ''high'', ''critical'']"

definition request_status_enum :: "string list" where
  "request_status_enum = [''pending'', ''in-progress'', ''fulfilled'', ''cancelled'']"

text \<open>
  The validators of \<^verbatim>\<open>requestSchema\<close>, run by Mongoose when a Request is saved:
  \<^verbatim>\<open>type\<close> and \<^verbatim>\<open>description\<close> are required, \<^verbatim>\<open>type\<close>, \<^verbatim>\<open>urgencyLevel\<close> and \<^verbatim>\<open>status\<close>
  are restricted by \<^verbatim>\<open>enum\<close>, \<^verbatim>\<open>amount\<close> has \<^verbatim>\<open>min: 0\<close>.
\<close>

definition request_validate :: "request \<Rightarrow> bool" where
  "request_validate r \<longleftrightarrow>
     req_type r \<in> set request_type_enum \<and>
     req_description r \<noteq> [] \<and>
     req_urgencyLevel r \<in> set urgency_enum \<and>
     0 \<le> req_amount r \<and>
     req_status r \<in> set request_status_enum"

section \<open>Claiming a donation (src/routes/student.js, POST /student/claim-donation/:donationId)\<close>

definition findById_donation :: "oid \<Rightarrow> db \<Rightarrow> donation option" where
  "findById_donation i s = find (\<lambda>d. don_id d = i) (donations s)"

text \<open>\<^verbatim>\<open>donation.save()\<close>: the pre-save hook stamps \<^verbatim>\<open>updatedAt\<close>, then the document with
  this \<^verbatim>\<open>_id\<close> is written. Mongoose sends the changed paths only; the claim handler is
  the one handler that changes a stored donation, and it always changes the same paths,
  so writing the whole in-memory document stores the same. The schema sets no
  \<^verbatim>\<open>optimisticConcurrency\<close>, and the write does not depend on the status that was read.\<close>

definition save_donation :: "date \<Rightarrow> donation \<Rightarrow> db \<Rightarrow> db" where
  "save_donation now d s =
     s\<lparr>donations := map (\<lambda>x. if don_id x = don_id d then d\<lparr>don_updatedAt := now\<rparr> else x)
                         (donations s)\<rparr>"

text \<open>\<^verbatim>\<open>Request.findOne({student, type, status: 'pending'})\<close>: the first match.\<close>

definition findOne_request :: "oid \<Rightarrow> string \<Rightarrow> db \<Rightarrow> request option" where
  "findOne_request student ty s =
     find (\<lambda>r. req_student r = student \<and> req_type r = ty \<and> req_status r = ''pending'')
          (requests s)"

text \<open>\<^verbatim>\<open>request.save()\<close>: validation first (a failure rejects the save, \<open>None\<close>), then the
  pre-save hook stamps \<^verbatim>\<open>updatedAt\<close>; a new document is appended, an existing one is
  written under its \<^verbatim>\<open>_id\<close>.\<close>

definition save_request :: "date \<Rightarrow> request \<Rightarrow> db \<Rightarrow> db option" where
  "save_request now r s =
     (if \<not> request_validate r then None
      else Some (s\<lparr>requests := map (\<lambda>x. if req_id x = req_id r then r\<lparr>req_updatedAt := now\<rparr> else x)
                                   (requests s)\<rparr>))"

definition insert_request :: "date \<Rightarrow> request \<Rightarrow> db \<Rightarrow> db option" where
  "insert_request now r s =
     (if \<not> request_validate r then None
      else Some (s\<lparr>requests := requests s @ [r\<lparr>req_updatedAt := now\<rparr>]\<rparr>))"

text \<open>\<^verbatim>\<open>new Request({student, type, description: `Claimed: ...`, status: 'fulfilled',
  fulfilledBy, fulfilledAt})\<close> with the schema defaults for the other fields. The driver
  generates the ObjectId of a new document; it is the handler's input \<open>newId\<close>.\<close>

definition claimed_request :: "oid \<Rightarrow> oid \<Rightarrow> donation \<Rightarrow> date \<Rightarrow> request" where
  "claimed_request newId student d now =
     \<lparr>req_id = newId,
      req_student = student,
      req_type = don_type d,
      req_description = ''Claimed: '' @ don_description d,
      req_urgencyLevel = ''medium'',
      req_amount = 0,
      req_status = ''fulfilled'',
      req_fulfilledBy = Some (don_donor d),
      req_fulfilledAt = Some now,
      req_priority = 0,
      req_createdAt = now,
      req_updatedAt = now\<rparr>"

definition fulfil_existing :: "donation \<Rightarrow> date \<Rightarrow> request \<Rightarrow> request" where
  "fulfil_existing d now r =
     r\<lparr>req_status := ''fulfilled'', req_fulfilledBy := Some (don_donor d),
       req_fulfilledAt := Some now\<rparr>"

definition reserve :: "oid \<Rightarrow> date \<Rightarrow> donation \<Rightarrow> donation" where
  "reserve student now d =
     d\<lparr>don_status := ''reserved'', don_recipient := Some student, don_donatedAt := Some now\<rparr>"

definition unavailable :: response where
  "unavailable = Redirect 302 ''/student/dashboard?error=Donation is no longer available''"

definition claimed :: response where
  "claimed = Redirect 302
     ''/student/dashboard?success=Donation claimed successfully! The donor has been notified.''"

definition claim_failed :: response where
  "claim_failed = Redirect 302 ''/student/dashboard?error=Failed to claim donation''"

text \<open>
  The handler, run without interruption. \<open>now\<close> is the clock read by \<^verbatim>\<open>new Date()\<close> and
  \<^verbatim>\<open>Date.now()\<close>. A rejected save throws into the \<^verbatim>\<open>catch\<close> block, which answers with the
  failure redirect; what was saved before stays saved. The socket notifications change no record and are left
  out.
\<close>

definition claim_donation :: "oid \<Rightarrow> oid \<Rightarrow> oid \<Rightarrow> date \<Rightarrow> db \<Rightarrow> response \<times> db" where
  "claim_donation student donationId newId now s =
     (case findById_donation donationId s of
        None \<Rightarrow> (unavailable, s)
      | Some donation \<Rightarrow>
          if don_status donation \<noteq> ''available'' then (unavailable, s)
          else
            let donation' = reserve student now donation;
                s1 = save_donation now donation' s
            in (case findOne_request student (don_type donation') s1 of
                  Some existingRequest \<Rightarrow>
                    (case save_request now (fulfil_existing donation' now existingRequest) s1 of
                       None \<Rightarrow> (claim_failed, s1)
                     | Some s2 \<Rightarrow> (claimed, s2))
                | None \<Rightarrow>
                    (case insert_request now (claimed_request newId student donation' now) s1 of
                       None \<Rightarrow> (claim_failed, s1)
                     | Some s2 \<Rightarrow> (claimed, s2))))"

subsection \<open>The handler as a sequence of database round trips\<close>

text \<open>
  Each \<^verbatim>\<open>await\<close> of the handler is one round trip to the database; between two of them
  the event loop may run other requests. A program point holds what the handler keeps in
  memory: the donation document it loaded and changed, then the request document it is
  about to save (\<open>True\<close> for a new document).
\<close>

datatype claim_pc =
    AtFindById
  | AtDonationSave donation
  | AtRequestFindOne donation
  | AtRequestSave request bool
  | Finished response

fun claim_step :: "oid \<Rightarrow> oid \<Rightarrow> oid \<Rightarrow> date \<Rightarrow> claim_pc \<Rightarrow> db \<Rightarrow> claim_pc \<times> db" where
  "claim_step student donationId newId now AtFindById s =
     (case findById_donation donationId s of
        None \<Rightarrow> (Finished unavailable, s)
      | Some donation \<Rightarrow>
          if don_status donation \<noteq> ''available'' then (Finished unavailable, s)
          else (AtDonationSave (reserve student now donation), s))"
| "claim_step student donationId newId now (AtDonationSave donation) s =
     (AtRequestFindOne donation, save_donation now donation s)"
| "claim_step student donationId newId now (AtRequestFindOne donation) s =
     (case findOne_request student (don_type donation) s of
        Some existingRequest \<Rightarrow>
          (AtRequestSave (fulfil_existing donation now existingRequest) False, s)
      | None \<Rightarrow> (AtRequestSave (claimed_request newId student donation now) True, s))"
| "claim_step student donationId newId now (AtRequestSave r isNew) s =
     (case (if isNew then insert_request now r s else save_request now r s) of
        None \<Rightarrow> (Finished claim_failed, s)
      | Some s' \<Rightarrow> (Finished claimed, s'))"
| "claim_step student donationId newId now (Finished r) s = (Finished r, s)"

text \<open>
  Concurrent claims of one donation: request \<open>i\<close> is \<open>(student, newId, now)\<close>, \<open>pcs ! i\<close> is
  its program point, and a schedule is the order in which the requests' round trips
  reach the database.
\<close>

definition sched_step ::
  "oid \<Rightarrow> (oid \<times> oid \<times> date) list \<Rightarrow> claim_pc list \<times> db \<Rightarrow> nat \<Rightarrow> claim_pc list \<times> db" where
  "sched_step donationId reqs st i =
     (if i < length (fst st) \<and> i < length reqs then
        (case reqs ! i of (student, newId, now) \<Rightarrow>
           (case claim_step student donationId newId now (fst st ! i) (snd st) of
              (pc', s') \<Rightarrow> ((fst st)[i := pc'], s')))
      else st)"

definition run_schedule ::
  "oid \<Rightarrow> (oid \<times> oid \<times> date) list \<Rightarrow> nat list \<Rightarrow> db \<Rightarrow> claim_pc list \<times> db" where
  "run_schedule donationId reqs schedule s =
     foldl (sched_step donationId reqs) (replicate (length reqs) AtFindById, s) schedule"

text \<open>The fulfilled requests of a student.\<close>

definition fulfilled_requests :: "oid \<Rightarrow> db \<Rightarrow> request list" where
  "fulfilled_requests student s =
     filter (\<lambda>r. req_student r = student \<and> req_status r = ''fulfilled'') (requests s)"

text \<open>One request run alone: \<open>k\<close> round trips with nothing in between.\<close>

definition claim_steps :: "oid \<Rightarrow> oid \<Rightarrow> oid \<Rightarrow> date \<Rightarrow> nat \<Rightarrow> db \<Rightarrow> claim_pc \<times> db" where
  "claim_steps student donationId newId now k s =
     ((\<lambda>st. claim_step student donationId newId now (fst st) (snd st)) ^^ k) (AtFindById, s)"

section \<open>Processing a payment (src/routes/admin.js, POST /admin/process-payment/:paymentId)\<close>

text \<open>
  The request body. \<^verbatim>\<open>recipient\<close> is \<open>None\<close> when absent or empty (falsy). \<^verbatim>\<open>splitAmong\<close>
  is a string handed to \<^verbatim>\<open>JSON.parse\<close>: absent or empty (\<open>NoSplit\<close>), a text the parser
  rejects with a SyntaxError (\<open>BadJSON\<close>), or a text that parses to a list of
  \<^verbatim>\<open>{student, amount}\<close> objects (\<open>Shares\<close>).
\<close>

datatype split_body = NoSplit | BadJSON | Shares "share list"

record process_body =
  action :: string
  recipient :: "oid option"
  distributionMethod :: string
  splitAmong :: split_body

definition findById_payment :: "oid \<Rightarrow> db \<Rightarrow> payment option" where
  "findById_payment i s = find (\<lambda>p. pay_id p = i) (payments s)"

text \<open>\<^verbatim>\<open>payment.save()\<close>: the pre-save hook stamps \<^verbatim>\<open>updatedAt\<close>. The validators of
  \<^verbatim>\<open>paymentSchema\<close> constrain fields the handler either leaves as they were stored or sets to
  a member of the enum, so the save of a stored payment goes through.\<close>

definition save_payment :: "date \<Rightarrow> payment \<Rightarrow> db \<Rightarrow> db" where
  "save_payment now p s =
     s\<lparr>payments := map (\<lambda>x. if pay_id x = pay_id p then p\<lparr>pay_updatedAt := now\<rparr> else x)
                        (payments s)\<rparr>"

definition payment_not_found :: response where
  "payment_not_found = Redirect 302 ''/admin/payments?error=Payment not found''"

definition payment_approved :: response where
  "payment_approved =
     Redirect 302 ''/admin/payments?success=Payment approved and processed successfully''"

definition payment_rejected :: response where
  "payment_rejected = Redirect 302 ''/admin/payments?success=Payment rejected''"

definition payment_failed :: response where
  "payment_failed = Redirect 302 ''/admin/payments?error=Failed to process payment''"

text \<open>
  \<open>admin\<close> is \<^verbatim>\<open>req.user._id\<close>. An action other than \<^verbatim>\<open>approve\<close> and \<^verbatim>\<open>reject\<close> sends no
  response (\<open>None\<close>). The handler reads \<^verbatim>\<open>payment.status\<close> nowhere and compares no sum.
\<close>

definition process_payment ::
  "oid \<Rightarrow> oid \<Rightarrow> process_body \<Rightarrow> date \<Rightarrow> db \<Rightarrow> response option \<times> db" where
  "process_payment admin paymentId body now s =
     (case findById_payment paymentId s of
        None \<Rightarrow> (Some payment_not_found, s)
      | Some payment \<Rightarrow>
          if action body = ''approve'' then
            let p1 = payment\<lparr>pay_status := ''approved'', pay_processedBy := Some admin,
                             pay_processedAt := Some now\<rparr>
            in if distributionMethod body = ''full'' \<and> recipient body \<noteq> None then
                 (Some payment_approved,
                  save_payment now
                    (p1\<lparr>pay_recipient := recipient body, pay_distributionMethod := ''full''\<rparr>) s)
               else if distributionMethod body = ''split'' \<and> splitAmong body \<noteq> NoSplit then
                 (case splitAmong body of
                    Shares xs \<Rightarrow>
                      (Some payment_approved,
                       save_payment now
                         (p1\<lparr>pay_distributionMethod := ''split'', pay_splitAmong := xs\<rparr>) s)
                  | _ \<Rightarrow> (Some payment_failed, s))
               else (Some payment_approved, save_payment now p1 s)
          else if action body = ''reject'' then
            (Some payment_rejected,
             save_payment now
               (payment\<lparr>pay_status := ''cancelled'', pay_processedBy := Some admin,
                        pay_processedAt := Some now\<rparr>) s)
          else (None, s))"

section \<open>Sorted request feeds (src/routes/admin.js, GET /donor/requests and /donor/dashboard)\<close>

text \<open>
  \<^verbatim>\<open>Request.find(query).sort(sortOptions)\<close>. The sort is the database's: the documents are
  compared key by key, a String field by the binary order of its bytes, a Date and a
  Number by value, \<^verbatim>\<open>1\<close> ascending and \<^verbatim>\<open>-1\<close> descending. The database returns the
  matching documents in an order that respects this comparison; the order of documents
  that compare equal on every key of the sort is the database's choice and is not fixed
  by the query.
\<close>

datatype sort_field = UrgencyLevel | CreatedAt | Amount

datatype sort_dir = Asc | Desc

fun field_less :: "sort_field \<Rightarrow> request \<Rightarrow> request \<Rightarrow> bool" where
  "field_less UrgencyLevel a b = (req_urgencyLevel a < req_urgencyLevel b)"
| "field_less CreatedAt a b = (req_createdAt a < req_createdAt b)"
| "field_less Amount a b = (req_amount a < req_amount b)"

fun field_equal :: "sort_field \<Rightarrow> request \<Rightarrow> request \<Rightarrow> bool" where
  "field_equal UrgencyLevel a b = (req_urgencyLevel a = req_urgencyLevel b)"
| "field_equal CreatedAt a b = (req_createdAt a = req_createdAt b)"
| "field_equal Amount a b = (req_amount a = req_amount b)"

fun sort_le :: "(sort_field \<times> sort_dir) list \<Rightarrow> request \<Rightarrow> request \<Rightarrow> bool" where
  "sort_le [] a b = True"
| "sort_le ((f, Asc) # ks) a b = (field_less f a b \<or> (field_equal f a b \<and> sort_le ks a b))"
| "sort_le ((f, Desc) # ks) a b = (field_less f b a \<or> (field_equal f a b \<and> sort_le ks a b))"

fun insert_sorted :: "('a \<Rightarrow> 'a \<Rightarrow> bool) \<Rightarrow> 'a \<Rightarrow> 'a list \<Rightarrow> 'a list" where
  "insert_sorted le x [] = [x]"
| "insert_sorted le x (y # ys) = (if le x y then x # y # ys else y # insert_sorted le x ys)"


text \<open>One such result, by insertion sort: the one that leaves documents comparing equal
  on every key in insertion order. Where no two documents compare equal it is the only
  result.\<close>

definition mongo_sort :: "(sort_field \<times> sort_dir) list \<Rightarrow> request list \<Rightarrow> request list" where
  "mongo_sort spec xs = foldr (insert_sorted (sort_le spec)) xs []"

text \<open>A query parameter is \<open>None\<close> when absent; \<^verbatim>\<open>if (type)\<close> tests that it is a non-empty
  string.\<close>

definition truthy :: "string option \<Rightarrow> bool" where
  "truthy p \<longleftrightarrow> (case p of None \<Rightarrow> False | Some v \<Rightarrow> v \<noteq> [])"

record requests_query =
  q_type :: "string option"
  q_urgency :: "string option"
  q_sort :: "string option"

definition query_matches :: "requests_query \<Rightarrow> request \<Rightarrow> bool" where
  "query_matches q r \<longleftrightarrow>
     req_status r = ''pending'' \<and>
     (if truthy (q_type q) then Some (req_type r) = q_type q else True) \<and>
     (if truthy (q_urgency q) then Some (req_urgencyLevel r) = q_urgency q else True)"

definition sortOptions :: "string option \<Rightarrow> (sort_field \<times> sort_dir) list" where
  "sortOptions sortBy =
     (if sortBy = Some ''urgency'' then [(UrgencyLevel, Desc), (CreatedAt, Asc)]
      else if sortBy = Some ''amount'' then [(Amount, Desc), (CreatedAt, Asc)]
      else [(CreatedAt, Asc)])"


text \<open>The list it hands to the view when the database sorts as \<open>mongo_sort\<close> does.\<close>

definition donor_requests :: "requests_query \<Rightarrow> db \<Rightarrow> request list" where
  "donor_requests q s = mongo_sort (sortOptions (q_sort q)) (filter (query_matches q) (requests s))"

text \<open>GET /donor/dashboard: \<^verbatim>\<open>studentRequests\<close>.\<close>

definition studentRequests :: "db \<Rightarrow> request list" where
  "studentRequests s =
     mongo_sort [(UrgencyLevel, Desc), (CreatedAt, Asc)]
       (filter (\<lambda>r. req_status r = ''pending'') (requests s))"

section \<open>Users (src/models/User.js)\<close>

subsection \<open>The unique 4-digit id of the pre-save hook\<close>











subsection \<open>Writes to the users collection\<close>





section \<open>The donor dashboard (src/routes/admin.js, GET /donor/dashboard)\<close>
















section \<open>Sample data\<close>

text \<open>A laptop offered by donor 9 whose expiry time 5 lies before the claim times used
  below, a donation already stored as expired, and an offering of money.\<close>

definition laptop_donation :: donation where
  "laptop_donation =
     \<lparr>don_id = 1, don_donor = 9, don_type = ''laptop'', don_description = ''Used laptop'',
      don_value = 300, don_status = ''available'', don_recipient = None,
      don_donatedAt = None, don_expiresAt = 5, don_createdAt = 0, don_updatedAt = 0\<rparr>"

definition expired_donation :: donation where
  "expired_donation = laptop_donation\<lparr>don_id := 2, don_status := ''expired''\<rparr>"

definition money_donation :: donation where
  "money_donation = laptop_donation\<lparr>don_id := 3, don_type := ''money'', don_description := ''Cash''\<rparr>"

text \<open>A payment of 100 waiting for the admin, and one the admin has rejected.\<close>

definition pending_payment :: payment where
  "pending_payment =
     \<lparr>pay_id = 21, pay_donor = 9, pay_recipient = None, pay_amount = 100,
      pay_type = ''general'', pay_status = ''pending'', pay_processedBy = None,
      pay_processedAt = None, pay_distributionMethod = ''full'', pay_splitAmong = [],
      pay_createdAt = 0, pay_updatedAt = 0\<rparr>"

definition cancelled_payment :: payment where
  "cancelled_payment =
     pending_payment\<lparr>pay_id := 22, pay_status := ''cancelled'', pay_processedBy := Some 7,
                     pay_processedAt := Some 1\<rparr>"

definition donor9 :: user where
  "donor9 =
     \<lparr>usr_id = 9, usr_username = ''dana'', usr_role = ''donor'', usr_uniqueId = Some ''5500'',
      usr_totalDonations = 3, usr_isRegularDonor = False, usr_isActive = True,
      usr_lastLogin = None, usr_updatedAt = 0\<rparr>"

text \<open>Student 2 asked for books (still pending) and for notes (fulfilled by donor 9).\<close>

definition books_request :: request where
  "books_request =
     \<lparr>req_id = 31, req_student = 2, req_type = ''books'', req_description = ''Algebra books'',
      req_urgencyLevel = ''medium'', req_amount = 0, req_status = ''pending'',
      req_fulfilledBy = None, req_fulfilledAt = None, req_priority = 0,
      req_createdAt = 1, req_updatedAt = 1\<rparr>"

definition notes_request :: request where
  "notes_request =
     books_request\<lparr>req_id := 32, req_type := ''notes'', req_status := ''fulfilled'',
                   req_fulfilledBy := Some 9, req_fulfilledAt := Some 2\<rparr>"

definition sample_db :: db where
  "sample_db =
     \<lparr>donations = [laptop_donation, expired_donation, money_donation],
      requests = [books_request, notes_request],
      payments = [pending_payment, cancelled_payment],
      users = [donor9]\<rparr>"

text \<open>Request bodies of the admin: approve in full for student 2, approve with a split of
  60 and 40, approve with a split of 60 and 50.\<close>

definition approve_full :: process_body where
  "approve_full =
     \<lparr>action = ''approve'', recipient = Some 2, distributionMethod = ''full'',
      splitAmong = NoSplit\<rparr>"

definition split_60_40 :: "share list" where
  "split_60_40 = [\<lparr>share_student = 2, share_amount = 60\<rparr>, \<lparr>share_student = 3, share_amount = 40\<rparr>]"

definition split_60_50 :: "share list" where
  "split_60_50 = [\<lparr>share_student = 2, share_amount = 60\<rparr>, \<lparr>share_student = 3, share_amount = 50\<rparr>]"

definition approve_split :: "share list \<Rightarrow> process_body" where
  "approve_split xs =
     \<lparr>action = ''approve'', recipient = None, distributionMethod = ''split'',
      splitAmong = Shares xs\<rparr>"





text \<open>Two pending requests: a critical one created at time 10, a high one at time 5.\<close>

definition critical_request :: request where
  "critical_request =
     books_request\<lparr>req_id := 41, req_student := 4, req_urgencyLevel := ''critical'',
                   req_createdAt := 10\<rparr>"

definition high_request :: request where
  "high_request =
     books_request\<lparr>req_id := 42, req_student := 5, req_urgencyLevel := ''high'',
                   req_createdAt := 5\<rparr>"

definition feed_db :: db where
  "feed_db =
     \<lparr>donations = [], requests = [critical_request, high_request], payments = [], users = []\<rparr>"








section \<open>Properties of the claim handler\<close>

lemmas sample_defs = sample_db_def laptop_donation_def expired_donation_def money_donation_def
  pending_payment_def cancelled_payment_def donor9_def books_request_def notes_request_def

lemmas claim_defs = claim_donation_def findById_donation_def save_donation_def
  findOne_request_def save_request_def insert_request_def claimed_request_def
  fulfil_existing_def reserve_def request_validate_def request_type_enum_def urgency_enum_def
  request_status_enum_def

lemma findById_Some_id: "findById_donation i s = Some d \<Longrightarrow> don_id d = i"
  by (auto simp: findById_donation_def find_Some_iff)

lemma find_map_replace:
  "don_id c = i \<Longrightarrow>
   find (\<lambda>d. don_id d = i) (map (\<lambda>x. if don_id x = i then c else x) xs) =
     (case find (\<lambda>d. don_id d = i) xs of None \<Rightarrow> None | Some _ \<Rightarrow> Some c)"
  by (induction xs) auto

lemma findById_save_donation:
  "findById_donation i s = Some d0 \<Longrightarrow> don_id d = i \<Longrightarrow>
   findById_donation i (save_donation now d s) = Some (d\<lparr>don_updatedAt := now\<rparr>)"
  using find_map_replace [of "d\<lparr>don_updatedAt := now\<rparr>" i "donations s"]
  by (simp add: findById_donation_def save_donation_def)

lemma donations_save_request:
  "save_request now r s = Some s' \<Longrightarrow> donations s' = donations s"
  by (auto simp: save_request_def split: if_splits)

lemma donations_insert_request:
  "insert_request now r s = Some s' \<Longrightarrow> donations s' = donations s"
  by (auto simp: insert_request_def split: if_splits)

lemma responses_distinct:
  "claimed \<noteq> unavailable" "claim_failed \<noteq> unavailable" "claimed \<noteq> claim_failed"
  by (simp_all add: claimed_def unavailable_def claim_failed_def)

text \<open>A donation that is not available is refused and nothing is written.\<close>

lemma claim_unavailable:
  "findById_donation R s = Some d \<Longrightarrow> don_status d \<noteq> ''available'' \<Longrightarrow>
   claim_donation B R n t s = (unavailable, s)"
  by (simp add: claim_donation_def)

lemma claim_donations:
  "findById_donation R s = Some d \<Longrightarrow> don_status d = ''available'' \<Longrightarrow>
   donations (snd (claim_donation A R n t s)) = donations (save_donation t (reserve A t d) s)"
  by (auto simp: claim_donation_def Let_def
      dest: donations_save_request donations_insert_request split: option.splits)

text \<open>After the claim of an available donation the stored document is the reserved one.\<close>

lemma claim_reserves:
  assumes "findById_donation R s = Some d" and "don_status d = ''available''"
  shows "findById_donation R (snd (claim_donation A R n t s)) =
           Some ((reserve A t d)\<lparr>don_updatedAt := t\<rparr>)"
proof -
  have id: "don_id (reserve A t d) = R"
    using findById_Some_id [OF assms(1)] by (simp add: reserve_def)
  have "findById_donation R (snd (claim_donation A R n t s)) =
        findById_donation R (save_donation t (reserve A t d) s)"
    using claim_donations [OF assms] by (simp add: findById_donation_def)
  then show ?thesis
    using findById_save_donation [OF assms(1) id] by simp
qed

lemma findOne_save_donation:
  "findOne_request a ty (save_donation t d s) = findOne_request a ty s"
  by (simp add: findOne_request_def save_donation_def)

lemma findOne_pending:
  "findOne_request a ty s = Some e \<Longrightarrow>
   req_student e = a \<and> req_type e = ty \<and> req_status e = ''pending'' \<and> e \<in> set (requests s)"
  by (auto simp: findOne_request_def find_Some_iff)

lemma validate_fulfil_existing:
  "request_validate (fulfil_existing d t e) \<longleftrightarrow>
     req_type e \<in> set request_type_enum \<and> req_description e \<noteq> [] \<and>
     req_urgencyLevel e \<in> set urgency_enum \<and> 0 \<le> req_amount e"
  by (auto simp: request_validate_def fulfil_existing_def request_status_enum_def)

lemma validate_claimed_request:
  "request_validate (claimed_request n a d t) \<longleftrightarrow> don_type d \<in> set request_type_enum"
  by (auto simp: request_validate_def claimed_request_def request_status_enum_def
      urgency_enum_def)

text \<open>The response to the claim of an available donation: the success redirect unless the
  save of the request is rejected by the schema.\<close>

lemma claim_response:
  assumes "findById_donation R s = Some d" and "don_status d = ''available''"
  shows "fst (claim_donation A R n t s) =
     (case findOne_request A (don_type d) s of
        Some e \<Rightarrow>
          if request_validate (fulfil_existing (reserve A t d) t e) then claimed
          else claim_failed
      | None \<Rightarrow> if don_type d \<in> set request_type_enum then claimed else claim_failed)"
  using assms
  by (auto simp: claim_donation_def Let_def findOne_save_donation validate_claimed_request
        save_request_def insert_request_def reserve_def
      split: option.splits)

lemma claim_response_valid:
  assumes "findById_donation R s = Some d" and "don_status d = ''available''"
    and "don_type d \<in> set request_type_enum"
    and "list_all request_validate (requests s)"
  shows "fst (claim_donation A R n t s) = claimed"
proof (cases "findOne_request A (don_type d) s")
  case None
  then show ?thesis using claim_response [OF assms(1,2)] assms(3) by simp
next
  case (Some e)
  then have "e \<in> set (requests s)" using findOne_pending by blast
  then have "request_validate e" using assms(4) by (simp add: list_all_iff)
  then have "request_validate (fulfil_existing (reserve A t d) t e)"
    by (simp add: validate_fulfil_existing) (simp add: request_validate_def)
  then show ?thesis using claim_response [OF assms(1,2)] Some by simp
qed

text \<open>Run alone, the four round trips of the handler are the handler.\<close>

lemma claim_steps_sequential:
  "claim_steps A R n t 4 s =
     (Finished (fst (claim_donation A R n t s)), snd (claim_donation A R n t s))"
  by (simp add: claim_steps_def claim_donation_def numeral_eq_Suc Let_def
      split: option.splits)

text \<open>
  Claiming an available donation \<open>R\<close> for student \<open>A\<close> leaves \<open>R\<close> stored as reserved
  with \<open>A\<close> as recipient; the answer is never the unavailable failure, and it is the
  success redirect whenever the donation's type is one a Request may have and the stored
  requests satisfy their schema. Any later claim of \<open>R\<close>, by any student \<open>B\<close>, is answered
  with the unavailable failure and leaves the whole database, so \<open>R\<close>'s status and
  recipient, as it was.
\<close>

lemma claim_then_claim_again:
  assumes "findById_donation R s = Some d" and "don_status d = ''available''"
  shows "(\<exists>d'. findById_donation R (snd (claim_donation A R n1 t1 s)) = Some d' \<and>
            don_status d' = ''reserved'' \<and> don_recipient d' = Some A) \<and>
         fst (claim_donation A R n1 t1 s) \<noteq> unavailable \<and>
         (don_type d \<in> set request_type_enum \<and> list_all request_validate (requests s) \<longrightarrow>
            fst (claim_donation A R n1 t1 s) = claimed) \<and>
         claim_donation B R n2 t2 (snd (claim_donation A R n1 t1 s)) =
           (unavailable, snd (claim_donation A R n1 t1 s))"
proof -
  let ?s1 = "snd (claim_donation A R n1 t1 s)"
  let ?d' = "(reserve A t1 d)\<lparr>don_updatedAt := t1\<rparr>"
  have found: "findById_donation R ?s1 = Some ?d'"
    by (rule claim_reserves [OF assms])
  have st: "don_status ?d' = ''reserved''" and rc: "don_recipient ?d' = Some A"
    by (simp_all add: reserve_def)
  have resp: "fst (claim_donation A R n1 t1 s) \<noteq> unavailable"
    using claim_response [OF assms] responses_distinct
    by (auto split: option.splits if_splits)
  have ok: "fst (claim_donation A R n1 t1 s) = claimed"
    if "don_type d \<in> set request_type_enum" "list_all request_validate (requests s)"
    using claim_response_valid [OF assms that] .
  have again: "claim_donation B R n2 t2 ?s1 = (unavailable, ?s1)"
    using claim_unavailable [OF found] st by simp
  show ?thesis using found st rc resp ok again by blast
qed

text \<open>
  C6. Student 4 claims the money offering of donor 9, which is available. The donation is
  stored as reserved with student 4 as recipient, but the claim does not succeed for the
  student: the answer is the failure redirect, not the success redirect. The later
  claim of the same donation by student 5 is answered with the unavailable redirect and
  leaves the database as it was.
\<close>

theorem money_claim_answered_with_failure:
  "findById_donation 3 sample_db = Some money_donation \<and>
   don_status money_donation = ''available'' \<and>
   fst (claim_donation 4 3 100 10 sample_db) = claim_failed \<and>
   fst (claim_donation 4 3 100 10 sample_db) \<noteq> claimed \<and>
   map don_status (donations (snd (claim_donation 4 3 100 10 sample_db))) =
     [''available'', ''expired'', ''reserved''] \<and>
   map don_recipient (donations (snd (claim_donation 4 3 100 10 sample_db))) =
     [None, None, Some 4] \<and>
   claim_donation 5 3 101 11 (snd (claim_donation 4 3 100 10 sample_db)) =
     (unavailable, snd (claim_donation 4 3 100 10 sample_db))"
  by (simp add: sample_defs claim_defs claim_failed_def claimed_def Let_def)

text \<open>
  C5 as stated fails: the laptop's expiry time 5 has passed at time 10 and its stored
  status is still available; the claim is answered with the success redirect and the
  donation is stored as reserved.
\<close>

theorem claim_after_expiry_counterexample:
  "don_expiresAt laptop_donation < 10 \<and>
   findById_donation 1 sample_db = Some laptop_donation \<and>
   fst (claim_donation 2 1 100 10 sample_db) = claimed \<and>
   map don_status (donations (snd (claim_donation 2 1 100 10 sample_db))) =
     [''reserved'', ''expired'', ''available'']"
  by (simp add: sample_defs claim_defs Let_def)

text \<open>
  C5, amended. The handler consults the stored status and never the expiry time: a
  donation whose expiry time has passed is refused, and left unchanged, exactly when its
  stored status is not available (for instance expired); when its stored status is still
  available the claim goes through and the donation is stored as reserved for the
  claimant.
\<close>

theorem claim_decided_by_stored_status:
  assumes "findById_donation R s = Some d" and "don_expiresAt d < now"
  shows "if don_status d = ''available''
         then \<exists>d'. findById_donation R (snd (claim_donation A R n now s)) = Some d' \<and>
                 don_status d' = ''reserved'' \<and> don_recipient d' = Some A
         else claim_donation A R n now s = (unavailable, s)"
proof (cases "don_status d = ''available''")
  case True
  have "findById_donation R (snd (claim_donation A R n now s)) =
          Some ((reserve A now d)\<lparr>don_updatedAt := now\<rparr>)"
    by (rule claim_reserves [OF assms(1) True])
  then show ?thesis using True by (simp add: reserve_def)
next
  case False
  then show ?thesis using claim_unavailable [OF assms(1)] by simp
qed

theorem claim_decided_by_stored_status_witness:
  "findById_donation 2 sample_db = Some expired_donation \<and>
   don_expiresAt expired_donation < 10 \<and>
   don_status expired_donation \<noteq> ''available'' \<and>
   claim_donation 2 2 100 10 sample_db = (unavailable, sample_db) \<and>
   findById_donation 1 sample_db = Some laptop_donation \<and>
   don_expiresAt laptop_donation < 10 \<and>
   don_status laptop_donation = ''available'' \<and>
   (\<exists>d'. findById_donation 1 (snd (claim_donation 2 1 100 10 sample_db)) = Some d' \<and>
      don_status d' = ''reserved'' \<and> don_recipient d' = Some 2)"
proof -
  have f2: "findById_donation 2 sample_db = Some expired_donation"
    by (simp add: sample_defs findById_donation_def)
  have e2: "don_expiresAt expired_donation < 10"
    by (simp add: sample_defs)
  have s2: "don_status expired_donation \<noteq> ''available''"
    by (simp add: sample_defs)
  have f1: "findById_donation 1 sample_db = Some laptop_donation"
    by (simp add: sample_defs findById_donation_def)
  have e1: "don_expiresAt laptop_donation < 10"
    by (simp add: sample_defs)
  have s1: "don_status laptop_donation = ''available''"
    by (simp add: sample_defs)
  show ?thesis
    using claim_decided_by_stored_status [OF f2 e2, of 2 100]
      claim_decided_by_stored_status [OF f1 e1, of 2 100] f2 e2 s2 f1 e1 s1
    by simp
qed

text \<open>
  C1. Two claims of the laptop, by students 2 and 3, whose round trips alternate: both
  read the donation while it is available, both save it, and both are answered with the
  success redirect; none is told that the donation is no longer available, and the
  recipient stored last is student 3. Run one after the other, the same two claims give
  one success and one unavailable failure.
\<close>

theorem concurrent_claims_both_succeed:
  "fst (run_schedule 1 [(2, 100, 10), (3, 101, 11)] [0, 1, 0, 1, 0, 1, 0, 1] sample_db) =
     [Finished claimed, Finished claimed] \<and>
   map don_recipient
     (donations (snd (run_schedule 1 [(2, 100, 10), (3, 101, 11)] [0, 1, 0, 1, 0, 1, 0, 1]
        sample_db))) = [Some 3, None, None] \<and>
   fst (run_schedule 1 [(2, 100, 10), (3, 101, 11)] [0, 0, 0, 0, 1, 1, 1, 1] sample_db) =
     [Finished claimed, Finished unavailable]"
  by (simp add: run_schedule_def sched_step_def sample_defs claim_defs Let_def)


text \<open>
  With distinct request ids and schema-valid stored requests, the claim of an available
  donation whose type a Request may have adds exactly one fulfilled request of the
  claimant: the first matching pending request, now fulfilled by the donor, or else a new
  document.
\<close>

lemma map_replace_none:
  "\<forall>x \<in> set xs. req_id x \<noteq> i \<Longrightarrow> map (\<lambda>x. if req_id x = i then c else x) xs = xs"
  by (induction xs) auto

lemma filter_replace_one:
  assumes "distinct (map req_id xs)" and "e \<in> set xs" and "\<not> P e" and "P c"
  shows "length (filter P (map (\<lambda>x. if req_id x = req_id e then c else x) xs)) =
           Suc (length (filter P xs))"
  using assms(1,2)
proof (induction xs)
  case Nil
  then show ?case by simp
next
  case (Cons x xs)
  show ?case
  proof (cases "x = e")
    case True
    have "\<forall>y \<in> set xs. req_id y \<noteq> req_id e"
      using Cons.prems(1) True by (auto simp: image_iff)
    then have "map (\<lambda>x. if req_id x = req_id e then c else x) xs = xs"
      by (rule map_replace_none)
    then show ?thesis using True assms(3,4) by simp
  next
    case False
    then have e: "e \<in> set xs" using Cons.prems(2) by simp
    have d: "distinct (map req_id xs)" using Cons.prems(1) by simp
    have "req_id x \<noteq> req_id e"
      using Cons.prems(1) e by auto
    then show ?thesis using Cons.IH [OF d e] by simp
  qed
qed

lemma requests_save_donation: "requests (save_donation t d s) = requests s"
  by (simp add: save_donation_def)

lemma claimed_request_reserve:
  "claimed_request n A (reserve B t' d) t = claimed_request n A d t"
  by (simp add: claimed_request_def reserve_def)

lemma fulfil_existing_reserve: "fulfil_existing (reserve B t' d) t e = fulfil_existing d t e"
  by (simp add: fulfil_existing_def reserve_def)

lemma don_type_reserve: "don_type (reserve B t d) = don_type d"
  by (simp add: reserve_def)

lemma claim_fulfils_one_request:
  assumes "findById_donation R s = Some d" and "don_status d = ''available''"
    and "don_type d \<in> set request_type_enum"
    and "list_all request_validate (requests s)"
    and "distinct (map req_id (requests s))"
  shows "length (fulfilled_requests A (snd (claim_donation A R n t s))) =
           Suc (length (fulfilled_requests A s))"
    and "case findOne_request A (don_type d) s of
           Some e \<Rightarrow>
             requests (snd (claim_donation A R n t s)) =
               map (\<lambda>x. if req_id x = req_id e
                         then e\<lparr>req_status := ''fulfilled'', req_fulfilledBy := Some (don_donor d),
                                 req_fulfilledAt := Some t, req_updatedAt := t\<rparr>
                         else x) (requests s)
         | None \<Rightarrow>
             requests (snd (claim_donation A R n t s)) =
               requests s @ [claimed_request n A d t]"
proof -
  let ?P = "\<lambda>r. req_student r = A \<and> req_status r = ''fulfilled''"
  show second: "case findOne_request A (don_type d) s of
           Some e \<Rightarrow>
             requests (snd (claim_donation A R n t s)) =
               map (\<lambda>x. if req_id x = req_id e
                         then e\<lparr>req_status := ''fulfilled'', req_fulfilledBy := Some (don_donor d),
                                 req_fulfilledAt := Some t, req_updatedAt := t\<rparr>
                         else x) (requests s)
         | None \<Rightarrow>
             requests (snd (claim_donation A R n t s)) =
               requests s @ [claimed_request n A d t]"
  proof (cases "findOne_request A (don_type d) s")
    case None
    then show ?thesis
      using assms(1,2,3)
      by (simp add: claim_donation_def Let_def findOne_save_donation insert_request_def
          validate_claimed_request don_type_reserve claimed_request_reserve
          requests_save_donation)
        (simp add: claimed_request_def)
  next
    case (Some e)
    then have "e \<in> set (requests s)" using findOne_pending by blast
    then have "request_validate e" using assms(4) by (simp add: list_all_iff)
    then have "request_validate (fulfil_existing d t e)"
      by (simp add: validate_fulfil_existing) (simp add: request_validate_def)
    then show ?thesis
      using assms(1,2) Some
      by (simp add: claim_donation_def Let_def findOne_save_donation save_request_def
          don_type_reserve fulfil_existing_reserve requests_save_donation)
        (simp add: fulfil_existing_def)
  qed
  show "length (fulfilled_requests A (snd (claim_donation A R n t s))) =
           Suc (length (fulfilled_requests A s))"
  proof (cases "findOne_request A (don_type d) s")
    case None
    then show ?thesis using second
      by (simp add: fulfilled_requests_def claimed_request_def)
  next
    case (Some e)
    have e: "e \<in> set (requests s)" "req_student e = A" "req_status e = ''pending''"
      using findOne_pending [OF Some] by simp_all
    let ?c = "e\<lparr>req_status := ''fulfilled'', req_fulfilledBy := Some (don_donor d),
                 req_fulfilledAt := Some t, req_updatedAt := t\<rparr>"
    have "\<not> ?P e" using e(3) by simp
    moreover have "?P ?c" using e(2) by simp
    ultimately have
      "length (filter ?P (map (\<lambda>x. if req_id x = req_id e then ?c else x) (requests s))) =
         Suc (length (filter ?P (requests s)))"
      using filter_replace_one [OF assms(5) e(1), of ?P ?c] by blast
    then show ?thesis using second Some by (simp add: fulfilled_requests_def)
  qed
qed

text \<open>
  C7. Student 4, who has no pending request, claims the money offering of donor 9. The
  donation is available, so it is stored as reserved for student 4; no pending request
  matches, and the new fulfilled Request is rejected by the schema, whose \<^verbatim>\<open>type\<close> enum
  has no \<^verbatim>\<open>money\<close>. The claim ends with the failure redirect, the donation stays reserved and
  the student has no fulfilled request.
\<close>

theorem money_claim_leaves_no_request:
  "findById_donation 3 sample_db = Some money_donation \<and>
   don_type money_donation \<in> set donation_type_enum \<and>
   don_type money_donation \<notin> set request_type_enum \<and>
   fst (claim_donation 4 3 100 10 sample_db) = claim_failed \<and>
   findById_donation 3 (snd (claim_donation 4 3 100 10 sample_db)) =
     Some (money_donation\<lparr>don_status := ''reserved'', don_recipient := Some 4,
                           don_donatedAt := Some 10, don_updatedAt := 10\<rparr>) \<and>
   requests (snd (claim_donation 4 3 100 10 sample_db)) = requests sample_db \<and>
   fulfilled_requests 4 (snd (claim_donation 4 3 100 10 sample_db)) = []"
  by (simp add: sample_defs claim_defs donation_type_enum_def fulfilled_requests_def Let_def)

section \<open>Properties of payment processing\<close>

lemmas payment_defs = process_payment_def findById_payment_def save_payment_def
  approve_full_def approve_split_def split_60_40_def split_60_50_def

lemma findById_payment_id: "findById_payment i s = Some p \<Longrightarrow> pay_id p = i"
  by (auto simp: findById_payment_def find_Some_iff)

lemma find_payment_replace:
  "pay_id c = i \<Longrightarrow>
   find (\<lambda>p. pay_id p = i) (map (\<lambda>x. if pay_id x = i then c else x) xs) =
     (case find (\<lambda>p. pay_id p = i) xs of None \<Rightarrow> None | Some _ \<Rightarrow> Some c)"
  by (induction xs) auto

lemma findById_save_payment:
  "findById_payment i s = Some p0 \<Longrightarrow> pay_id p = i \<Longrightarrow>
   findById_payment i (save_payment now p s) = Some (p\<lparr>pay_updatedAt := now\<rparr>)"
  using find_payment_replace [of "p\<lparr>pay_updatedAt := now\<rparr>" i "payments s"]
  by (simp add: findById_payment_def save_payment_def)

text \<open>
  C2 as stated fails: payment 22 is cancelled, not pending; approving it is answered with
  the success redirect and stores it as approved, with a new \<^verbatim>\<open>processedBy\<close>.
\<close>

theorem approve_cancelled_counterexample:
  "findById_payment 22 sample_db = Some cancelled_payment \<and>
   pay_status cancelled_payment \<noteq> ''pending'' \<and>
   fst (process_payment 8 22 approve_full 10 sample_db) = Some payment_approved \<and>
   findById_payment 22 (snd (process_payment 8 22 approve_full 10 sample_db)) =
     Some (cancelled_payment\<lparr>pay_status := ''approved'', pay_processedBy := Some 8,
             pay_processedAt := Some 10, pay_recipient := Some 2, pay_updatedAt := 10\<rparr>)"
  by (simp add: sample_defs payment_defs Let_def)

text \<open>
  C2, amended. A claim of a donation whose status is no longer available is answered
  with the unavailable failure and leaves every record unchanged. Payment processing has
  no such guard and no conflict error: approving or rejecting a payment that is not
  pending is carried out like any other, the stored payment takes the status approved or
  cancelled and the new \<^verbatim>\<open>processedBy\<close> and \<^verbatim>\<open>processedAt\<close>, and the answer is the success
  redirect (a split list that does not parse apart, which is answered with the failure
  redirect and stores nothing, see \<open>unparsable_split_fails\<close>).
\<close>

theorem stale_transitions:
  assumes "findById_donation R s = Some d" and "don_status d \<noteq> ''available''"
    and "findById_payment P s = Some p" and "pay_status p \<noteq> ''pending''"
    and "action b = ''approve'' \<or> action b = ''reject''"
    and "\<not> (action b = ''approve'' \<and> distributionMethod b = ''split'' \<and> splitAmong b = BadJSON)"
  shows "claim_donation A R n t s = (unavailable, s) \<and>
         fst (process_payment admin P b now s) =
           Some (if action b = ''approve'' then payment_approved else payment_rejected) \<and>
         (\<exists>p'. findById_payment P (snd (process_payment admin P b now s)) = Some p' \<and>
            pay_status p' = (if action b = ''approve'' then ''approved'' else ''cancelled'') \<and>
            pay_processedBy p' = Some admin \<and> pay_processedAt p' = Some now)"
proof -
  have c: "claim_donation A R n t s = (unavailable, s)"
    by (rule claim_unavailable [OF assms(1,2)])
  have id: "pay_id p = P" by (rule findById_payment_id [OF assms(3)])
  have r: "fst (process_payment admin P b now s) =
           Some (if action b = ''approve'' then payment_approved else payment_rejected)"
    using assms(3,5,6)
    by (auto simp: process_payment_def Let_def split: split_body.splits)
  have "\<exists>q. snd (process_payment admin P b now s) = save_payment now q s \<and> pay_id q = P \<and>
          pay_status q = (if action b = ''approve'' then ''approved'' else ''cancelled'') \<and>
          pay_processedBy q = Some admin \<and> pay_processedAt q = Some now"
    using assms(3,5,6) id
    by (auto simp: process_payment_def Let_def split: split_body.splits)
  then obtain q where q: "snd (process_payment admin P b now s) = save_payment now q s"
      "pay_id q = P"
      "pay_status q = (if action b = ''approve'' then ''approved'' else ''cancelled'')"
      "pay_processedBy q = Some admin" "pay_processedAt q = Some now"
    by blast
  have "findById_payment P (snd (process_payment admin P b now s)) =
          Some (q\<lparr>pay_updatedAt := now\<rparr>)"
    using findById_save_payment [OF assms(3) q(2)] q(1) by simp
  then have "\<exists>p'. findById_payment P (snd (process_payment admin P b now s)) = Some p' \<and>
            pay_status p' = (if action b = ''approve'' then ''approved'' else ''cancelled'') \<and>
            pay_processedBy p' = Some admin \<and> pay_processedAt p' = Some now"
    using q(3,4,5) by simp
  then show ?thesis using c r by blast
qed

theorem stale_transitions_witness:
  "findById_donation 2 sample_db = Some expired_donation \<and>
   don_status expired_donation \<noteq> ''available'' \<and>
   findById_payment 22 sample_db = Some cancelled_payment \<and>
   pay_status cancelled_payment \<noteq> ''pending'' \<and>
   claim_donation 4 2 100 10 sample_db = (unavailable, sample_db) \<and>
   fst (process_payment 8 22 approve_full 10 sample_db) = Some payment_approved \<and>
   (\<exists>p'. findById_payment 22 (snd (process_payment 8 22 approve_full 10 sample_db)) = Some p' \<and>
      pay_status p' = ''approved'' \<and> pay_processedBy p' = Some 8 \<and>
      pay_processedAt p' = Some 10)"
proof -
  have d: "findById_donation 2 sample_db = Some expired_donation"
    by (simp add: sample_defs findById_donation_def)
  have ds: "don_status expired_donation \<noteq> ''available''"
    by (simp add: sample_defs)
  have p: "findById_payment 22 sample_db = Some cancelled_payment"
    by (simp add: sample_defs findById_payment_def)
  have ps: "pay_status cancelled_payment \<noteq> ''pending''"
    by (simp add: sample_defs)
  have a: "action approve_full = ''approve'' \<or> action approve_full = ''reject''"
    by (simp add: approve_full_def)
  have nb: "\<not> (action approve_full = ''approve'' \<and> distributionMethod approve_full = ''split''
              \<and> splitAmong approve_full = BadJSON)"
    by (simp add: approve_full_def)
  have act: "action approve_full = ''approve''"
    by (simp add: approve_full_def)
  show ?thesis
    using stale_transitions [OF d ds p ps a nb, of 4 100 10 8 10] d ds p ps act by simp
qed

text \<open>An approval whose split list does not parse is answered with the failure redirect
  and stores nothing.\<close>

lemma unparsable_split_fails:
  "findById_payment P s = Some p \<Longrightarrow>
   process_payment admin P
     \<lparr>action = ''approve'', recipient = r, distributionMethod = ''split'', splitAmong = BadJSON\<rparr>
     now s = (Some payment_failed, s)"
  by (simp add: process_payment_def Let_def)

text \<open>
  C3 as stated fails: the payment is of 100, the shares 60 and 50 sum to 110; the approval
  is answered with the success redirect and the payment is stored as approved with that
  split.
\<close>

theorem split_sum_counterexample:
  "findById_payment 21 sample_db = Some pending_payment \<and>
   sum_list (map share_amount split_60_50) \<noteq> pay_amount pending_payment \<and>
   fst (process_payment 8 21 (approve_split split_60_50) 10 sample_db) = Some payment_approved \<and>
   findById_payment 21 (snd (process_payment 8 21 (approve_split split_60_50) 10 sample_db)) =
     Some (pending_payment\<lparr>pay_status := ''approved'', pay_processedBy := Some 8,
             pay_processedAt := Some 10, pay_distributionMethod := ''split'',
             pay_splitAmong := split_60_50, pay_updatedAt := 10\<rparr>)"
  by (simp add: sample_defs payment_defs Let_def)

text \<open>
  C3, amended. When a payment is approved with distribution method split, every split
  list that parses is accepted and stored, whatever its amounts sum to: the answer is the
  success redirect and the payment is stored as approved with that list. A list that
  sums to the payment's amount is accepted, and so is any other.
\<close>

theorem split_accepted_whatever_sum:
  assumes "findById_payment P s = Some p"
  shows "fst (process_payment admin P (approve_split xs) now s) = Some payment_approved \<and>
         findById_payment P (snd (process_payment admin P (approve_split xs) now s)) =
           Some (p\<lparr>pay_status := ''approved'', pay_processedBy := Some admin,
                   pay_processedAt := Some now, pay_distributionMethod := ''split'',
                   pay_splitAmong := xs, pay_updatedAt := now\<rparr>)"
proof -
  let ?q = "p\<lparr>pay_status := ''approved'', pay_processedBy := Some admin,
               pay_processedAt := Some now, pay_distributionMethod := ''split'',
               pay_splitAmong := xs\<rparr>"
  have id: "pay_id ?q = P" using findById_payment_id [OF assms] by simp
  have r: "process_payment admin P (approve_split xs) now s =
             (Some payment_approved, save_payment now ?q s)"
    using assms by (simp add: process_payment_def approve_split_def Let_def)
  show ?thesis
    using findById_save_payment [OF assms id, of now] r by simp
qed

theorem split_accepted_whatever_sum_witness:
  "findById_payment 21 sample_db = Some pending_payment \<and>
   sum_list (map share_amount split_60_40) = pay_amount pending_payment \<and>
   fst (process_payment 8 21 (approve_split split_60_40) 10 sample_db) = Some payment_approved \<and>
   findById_payment 21 (snd (process_payment 8 21 (approve_split split_60_40) 10 sample_db)) =
     Some (pending_payment\<lparr>pay_status := ''approved'', pay_processedBy := Some 8,
             pay_processedAt := Some 10, pay_distributionMethod := ''split'',
             pay_splitAmong := split_60_40, pay_updatedAt := 10\<rparr>)"
proof -
  have p: "findById_payment 21 sample_db = Some pending_payment"
    by (simp add: sample_defs findById_payment_def)
  have sm: "sum_list (map share_amount split_60_40) = pay_amount pending_payment"
    by (simp add: split_60_40_def pending_payment_def)
  show ?thesis
    using split_accepted_whatever_sum [OF p, of 8 split_60_40 10] p sm by simp
qed


section \<open>Properties of the sorted feeds\<close>














text \<open>Sorting a list that is in order gives the list back.\<close>

lemma insert_sorted_head:
  "sorted_wrt le (x # xs) \<Longrightarrow> insert_sorted le x xs = x # xs"
  by (cases xs) auto

lemma mongo_sort_sorted: "sorted_wrt (sort_le spec) xs \<Longrightarrow> mongo_sort spec xs = xs"
proof (induction xs)
  case Nil
  show ?case by (simp add: mongo_sort_def)
next
  case (Cons x xs)
  then have "mongo_sort spec xs = xs" by simp
  then have "mongo_sort spec (x # xs) = insert_sorted (sort_le spec) x xs"
    by (simp add: mongo_sort_def)
  then show ?case using insert_sorted_head [OF Cons.prems] by simp
qed


lemmas feed_defs = feed_db_def critical_request_def high_request_def books_request_def
  donor_requests_def studentRequests_def mongo_sort_def sortOptions_def query_matches_def
  truthy_def

text \<open>
  C4. The feed of the two sample requests, sorted by urgency: the stored strings are
  compared, \<^verbatim>\<open>high\<close> is above \<^verbatim>\<open>critical\<close> in the order of strings, and the high request
  created at time 5 comes before the critical one created at time 10, on the requests page
  and on the dashboard. The order of all four levels under the descending sort is
  medium, low, high, critical.
\<close>

theorem urgency_sort_puts_high_before_critical:
  "donor_requests \<lparr>q_type = None, q_urgency = None, q_sort = Some ''urgency''\<rparr> feed_db =
     [high_request, critical_request] \<and>
   studentRequests feed_db = [high_request, critical_request] \<and>
   ''critical'' < ''high'' \<and> ''high'' < ''low'' \<and> ''low'' < ''medium''"
  by (simp add: feed_defs)













section \<open>Properties of the unique id generator\<close>










section \<open>Properties of the donor dashboard\<close>


















end
